theory Spec2Isabelle
  imports Complex_Main
begin

section \<open>Python values shared by the modules\<close>

text \<open>
  Exceptions are values: a function that can raise returns \<open>error + 'a\<close>, with \<open>Inl\<close>
  the exception that leaves the function.
\<close>

datatype error =
  TypeError | ValueError | KeyError | AttributeError | ZeroDivisionError
  | JSONDecodeError | PermissionError | FileNotFoundError

text \<open>
  A Python \<open>str\<close> is modelled by \<open>string\<close>: the code points below 256. On them
  \<open>str.lower\<close> moves \<open>A\<close>..\<open>Z\<close> and the Latin-1 capitals (192..222 but the
  multiplication sign 215) up by 32 and leaves every other character.
\<close>

definition lower_chr :: "char \<Rightarrow> char" where
  "lower_chr c =
     (let n = (of_char c :: nat)
      in if (65 \<le> n \<and> n \<le> 90) \<or> (192 \<le> n \<and> n \<le> 222 \<and> n \<noteq> 215)
         then char_of (n + 32) else c)"

definition lower :: "string \<Rightarrow> string" where
  "lower s = map lower_chr s"

text \<open>\<open>sub in s\<close> on strings: \<open>sub\<close> occurs in \<open>s\<close> as a contiguous block.\<close>

fun starts_with :: "string \<Rightarrow> string \<Rightarrow> bool" where
  "starts_with [] s = True"
| "starts_with (p # ps) [] = False"
| "starts_with (p # ps) (c # cs) = (p = c \<and> starts_with ps cs)"

fun contains :: "string \<Rightarrow> string \<Rightarrow> bool" where
  "contains sub [] = (sub = [])"
| "contains sub (c # cs) = (starts_with sub (c # cs) \<or> contains sub cs)"

text \<open>\<open>str(n)\<close> and the format specifications \<open>{n}\<close> and \<open>{n:,}\<close> of an integer.\<close>

definition digit_chr :: "nat \<Rightarrow> char" where
  "digit_chr d = char_of (48 + d)"

fun str_nat :: "nat \<Rightarrow> string" where
  "str_nat n = (if n < 10 then [digit_chr n] else str_nat (n div 10) @ [digit_chr (n mod 10)])"

declare str_nat.simps [simp del]

definition str_int :: "int \<Rightarrow> string" where
  "str_int i = (if i < 0 then CHR ''-'' # str_nat (nat (- i)) else str_nat (nat i))"

fun group_thousands :: "string \<Rightarrow> string" where
  "group_thousands ds =
     (if length ds \<le> 3 then ds
      else group_thousands (take (length ds - 3) ds) @ CHR '','' # drop (length ds - 3) ds)"

declare group_thousands.simps [simp del]

definition fmt_comma :: "int \<Rightarrow> string" where
  "fmt_comma i =
     (if i < 0 then CHR ''-'' # group_thousands (str_nat (nat (- i)))
      else group_thousands (str_nat (nat i)))"

text \<open>\<open>int(x)\<close> of a quotient \<open>a / b\<close>: the quotient cut towards zero.\<close>

definition trunc_div :: "int \<Rightarrow> int \<Rightarrow> int" where
  "trunc_div a b = sgn a * sgn b * (\<bar>a\<bar> div \<bar>b\<bar>)"

section \<open>The wall clock\<close>

text \<open>
  A \<open>datetime\<close> is a day number and the microseconds since midnight. \<open>datetime.now()\<close>
  and \<open>datetime.today()\<close> read the wall clock, which is no argument of the code that
  calls them: the model passes the clock explicitly, as the sequence of the readings
  still to come, and every read consumes one.
\<close>

record datetime =
  day :: int
  usec :: nat

type_synonym clock = "nat \<Rightarrow> datetime"

definition now :: "clock \<Rightarrow> datetime" where
  "now clk = clk 0"

definition tick :: "clock \<Rightarrow> clock" where
  "tick clk = (\<lambda>n. clk (Suc n))"

definition at_time :: "int \<Rightarrow> nat \<Rightarrow> nat \<Rightarrow> nat \<Rightarrow> datetime" where
  "at_time d h m s = \<lparr>day = d, usec = ((h * 60 + m) * 60 + s) * 1000000\<rparr>"

text \<open>
  \<open>datetime.strptime(s, "%H:%M").time()\<close>. The format compiles to the regular expression
  \<open>(2[0-3]|[0-1]\d|\d):([0-5]\d|\d)\<close>, matched at the start of \<open>s\<close> with the
  alternatives tried in this order; a string that does not match, or that goes on after
  the match, raises \<open>ValueError\<close>. The result is the time of day in microseconds.
\<close>

definition is_digit :: "char \<Rightarrow> bool" where
  "is_digit c = (let n = (of_char c :: nat) in 48 \<le> n \<and> n \<le> 57)"

definition digit_val :: "char \<Rightarrow> nat" where
  "digit_val c = of_char c - 48"

fun parse_hour :: "string \<Rightarrow> (nat \<times> string) option" where
  "parse_hour (a # b # c # rest) =
     (if a = CHR ''2'' \<and> is_digit b \<and> digit_val b \<le> 3 \<and> c = CHR '':''
        then Some (20 + digit_val b, rest)
      else if (a = CHR ''0'' \<or> a = CHR ''1'') \<and> is_digit b \<and> c = CHR '':''
        then Some (10 * digit_val a + digit_val b, rest)
      else if is_digit a \<and> b = CHR '':'' then Some (digit_val a, c # rest)
      else None)"
| "parse_hour [a, b] = (if is_digit a \<and> b = CHR '':'' then Some (digit_val a, []) else None)"
| "parse_hour s = None"

fun parse_minute :: "string \<Rightarrow> (nat \<times> string) option" where
  "parse_minute (a # b # rest) =
     (if is_digit a \<and> digit_val a \<le> 5 \<and> is_digit b
        then Some (10 * digit_val a + digit_val b, rest)
      else if is_digit a then Some (digit_val a, b # rest)
      else None)"
| "parse_minute [a] = (if is_digit a then Some (digit_val a, []) else None)"
| "parse_minute [] = None"

definition strptime_HM :: "string option \<Rightarrow> error + nat" where
  "strptime_HM arg =
     (case arg of
        None \<Rightarrow> Inl TypeError
      | Some s \<Rightarrow>
          (case parse_hour s of
             None \<Rightarrow> Inl ValueError
           | Some (h, s1) \<Rightarrow>
               (case parse_minute s1 of
                  None \<Rightarrow> Inl ValueError
                | Some (m, s2) \<Rightarrow>
                    if s2 = [] then Inr ((h * 60 + m) * 60 * 1000000) else Inl ValueError)))"

section \<open>Conditions and progress (shared/models.py)\<close>

datatype ConditionType = STEPS | TIME | WORKOUT | LOCATION | TOMORROW | PASSWORD

text \<open>
  Latitude and longitude are Python floats. The model computes with real numbers: the
  rounding of the floating-point operations is left out.
\<close>

record Location =
  name :: string
  latitude :: real
  longitude :: real
  radius_meters :: int

record Condition =
  type :: ConditionType
  steps_target :: "int option"
  time_target :: "string option"
  workout_minutes :: "int option"
  location :: "Location option"

record Progress =
  steps_today :: int
  workout_minutes_today :: int
  current_location :: "Location option"

text \<open>
  The distance test of the \<open>LOCATION\<close> branch:
  \<open>sqrt((lat1 - lat2)**2 + (lng1 - lng2)**2) * 111000 <= radius_meters\<close>.
\<close>

definition within_radius :: "Location \<Rightarrow> Location \<Rightarrow> bool" where
  "within_radius cur loc =
     (let dist = sqrt ((latitude cur - latitude loc)\<^sup>2
                       + (longitude cur - longitude loc)\<^sup>2) * 111000
      in dist \<le> real_of_int (radius_meters loc))"

text \<open>
  \<open>Progress.check_condition\<close>. Besides its two arguments the method reads the wall clock
  in the \<open>TIME\<close> branch: once for \<open>now\<close>, and when the target is not reached once for
  \<open>datetime.today()\<close> and once more for \<open>now_dt\<close>. The model takes the clock and returns
  it with the readings consumed. The percentage \<open>int(steps / target * 100)\<close> and the
  minutes \<open>int(remaining.total_seconds() / 60)\<close> are computed exactly.
\<close>

definition check_condition ::
  "clock \<Rightarrow> Progress \<Rightarrow> Condition \<Rightarrow> (error + bool \<times> string) \<times> clock" where
  "check_condition clk self condition =
     (case type condition of
        STEPS \<Rightarrow>
          (case steps_target condition of
             None \<Rightarrow> (Inl TypeError, clk)
           | Some t \<Rightarrow>
               if t = 0 then (Inl ZeroDivisionError, clk)
               else
                 (Inr (steps_today self \<ge> t,
                       fmt_comma (steps_today self) @ ''/'' @ fmt_comma t @ '' ('' @
                       str_int (min 100 (trunc_div (steps_today self * 100) t)) @ ''%)''),
                  clk))
      | TIME \<Rightarrow>
          (case strptime_HM (time_target condition) of
             Inl e \<Rightarrow> (Inl e, clk)
           | Inr target \<Rightarrow>
               if usec (now clk) \<ge> target then (Inr (True, ''Time reached''), tick clk)
               else
                 (let today = day (now (tick clk));
                      now_dt = now (tick (tick clk));
                      remaining = (today - day now_dt) * 86400000000
                                  + int target - int (usec now_dt);
                      mins = trunc_div remaining 60000000
                  in (Inr (False,
                           if mins > 60
                           then str_int (mins div 60) @ ''h '' @ str_int (mins mod 60) @ ''m left''
                           else str_int mins @ ''m left''),
                      tick (tick (tick clk)))))
      | WORKOUT \<Rightarrow>
          (case workout_minutes condition of
             None \<Rightarrow> (Inl TypeError, clk)
           | Some t \<Rightarrow>
               (Inr (workout_minutes_today self \<ge> t,
                     str_int (workout_minutes_today self) @ ''/'' @ str_int t @ ''min''),
                clk))
      | LOCATION \<Rightarrow>
          (case current_location self of
             None \<Rightarrow> (Inr (False, ''Location unknown''), clk)
           | Some cur \<Rightarrow>
               (case location condition of
                  None \<Rightarrow> (Inl AttributeError, clk)
                | Some loc \<Rightarrow>
                    (let met = within_radius cur loc
                     in (Inr (met, (if met then ''At'' else ''Not at'') @ '' '' @ name loc), clk))))
      | TOMORROW \<Rightarrow> (Inr (False, ''Blocked until tomorrow''), clk)
      | PASSWORD \<Rightarrow> (Inr (False, ''Enter password to unlock''), clk))"

section \<open>Rules and the rule store (shared/models.py)\<close>

record Rule =
  rule_id :: string
  blocked_items :: "string list"
  condition :: Condition
  enabled :: bool
  created_at :: string

text \<open>
  \<open>RuleStore.get_blocked_items\<close>. The loop skips a disabled rule before it looks at the
  condition, calls \<open>check_condition\<close> on every enabled rule in turn (each call sees the
  clock the previous ones left) and extends \<open>blocked\<close> with the items of a rule whose
  condition is not met, exactly as they are written in the rule. An exception of
  \<open>check_condition\<close> leaves the method. The result \<open>list(set(blocked))\<close> is a list without
  duplicates in an order Python does not fix: the model returns the set.
\<close>

fun collect_blocked ::
  "clock \<Rightarrow> Progress \<Rightarrow> Rule list \<Rightarrow> string list \<Rightarrow> (error + string list) \<times> clock" where
  "collect_blocked clk progress [] blocked = (Inr blocked, clk)"
| "collect_blocked clk progress (rule # rules) blocked =
     (if \<not> enabled rule then collect_blocked clk progress rules blocked
      else
        (case check_condition clk progress (condition rule) of
           (Inl e, clk') \<Rightarrow> (Inl e, clk')
         | (Inr (met, _), clk') \<Rightarrow>
             if \<not> met then collect_blocked clk' progress rules (blocked @ blocked_items rule)
             else collect_blocked clk' progress rules blocked))"

definition get_blocked_items ::
  "clock \<Rightarrow> Rule list \<Rightarrow> Progress \<Rightarrow> (error + string set) \<times> clock" where
  "get_blocked_items clk rules progress =
     (case collect_blocked clk progress rules [] of
        (Inl e, clk') \<Rightarrow> (Inl e, clk')
      | (Inr blocked, clk') \<Rightarrow> (Inr (set blocked), clk'))"

text \<open>Whether a rule's condition is met at a clock (an evaluation that raises is not met).\<close>

definition is_met :: "clock \<Rightarrow> Progress \<Rightarrow> Rule \<Rightarrow> bool" where
  "is_met clk progress rule =
     (case fst (check_condition clk progress (condition rule)) of
        Inl e \<Rightarrow> False
      | Inr (met, _) \<Rightarrow> met)"

definition raises :: "clock \<Rightarrow> Progress \<Rightarrow> Rule \<Rightarrow> bool" where
  "raises clk progress rule =
     (case fst (check_condition clk progress (condition rule)) of
        Inl e \<Rightarrow> True
      | Inr r \<Rightarrow> False)"

subsection \<open>Loading the rule file\<close>

text \<open>
  What \<open>json.load\<close> returns. An object is the list of its items, looked up with
  \<open>map_of\<close>. Python checks no annotation of a dataclass, so the fields of a loaded rule
  hold whatever JSON value the file has; \<open>JNull\<close> is \<open>None\<close>.
\<close>

datatype json =
  JNull | JBool bool | JInt int | JFloat rat | JStr string
  | JArr "json list" | JObj "(string \<times> json) list"

datatype rule_file = NoFile | Unparseable | Doc json

record LoadedLocation =
  loc_name :: json
  loc_latitude :: json
  loc_longitude :: json
  loc_radius_meters :: json

record LoadedCondition =
  cond_type :: ConditionType
  cond_steps_target :: json
  cond_time_target :: json
  cond_workout_minutes :: json
  cond_location :: "LoadedLocation option"

record LoadedRule =
  loaded_id :: json
  loaded_blocked_items :: json
  loaded_condition :: LoadedCondition
  loaded_enabled :: json
  loaded_created_at :: json

text \<open>\<open>d[key]\<close>, \<open>d.get(key, default)\<close>, truth of a value, and \<open>ConditionType(v)\<close>.\<close>

fun subscript :: "json \<Rightarrow> string \<Rightarrow> error + json" where
  "subscript (JObj d) k = (case map_of d k of None \<Rightarrow> Inl KeyError | Some v \<Rightarrow> Inr v)"
| "subscript j k = Inl TypeError"

fun get_or :: "json \<Rightarrow> string \<Rightarrow> json \<Rightarrow> error + json" where
  "get_or (JObj d) k dflt = (case map_of d k of None \<Rightarrow> Inr dflt | Some v \<Rightarrow> Inr v)"
| "get_or j k dflt = Inl AttributeError"

fun truthy :: "json \<Rightarrow> bool" where
  "truthy JNull = False"
| "truthy (JBool b) = b"
| "truthy (JInt i) = (i \<noteq> 0)"
| "truthy (JFloat x) = (x \<noteq> 0)"
| "truthy (JStr s) = (s \<noteq> [])"
| "truthy (JArr xs) = (xs \<noteq> [])"
| "truthy (JObj d) = (d \<noteq> [])"

definition ConditionType_of :: "json \<Rightarrow> error + ConditionType" where
  "ConditionType_of v =
     (if v = JStr ''steps'' then Inr STEPS
      else if v = JStr ''time'' then Inr TIME
      else if v = JStr ''workout'' then Inr WORKOUT
      else if v = JStr ''location'' then Inr LOCATION
      else if v = JStr ''tomorrow'' then Inr TOMORROW
      else if v = JStr ''password'' then Inr PASSWORD
      else Inl ValueError)"

text \<open>Sequencing of steps that can raise: the first exception ends the computation.\<close>

definition bind :: "error + 'a \<Rightarrow> ('a \<Rightarrow> error + 'b) \<Rightarrow> error + 'b" where
  "bind m f = (case m of Inl e \<Rightarrow> Inl e | Inr x \<Rightarrow> f x)"

definition Location_from :: "json \<Rightarrow> error + LoadedLocation" where
  "Location_from loc =
     bind (subscript loc ''name'') (\<lambda>n.
     bind (subscript loc ''lat'') (\<lambda>la.
     bind (subscript loc ''lng'') (\<lambda>lo.
     bind (get_or loc ''radius'' (JInt 100)) (\<lambda>r.
       Inr \<lparr>loc_name = n, loc_latitude = la, loc_longitude = lo, loc_radius_meters = r\<rparr>))))"

definition Condition_from_dict :: "json \<Rightarrow> error + LoadedCondition" where
  "Condition_from_dict d =
     bind (subscript d ''type'') (\<lambda>t.
     bind (ConditionType_of t) (\<lambda>ct.
     bind (get_or d ''steps_target'' JNull) (\<lambda>st.
     bind (get_or d ''time_target'' JNull) (\<lambda>tt.
     bind (get_or d ''workout_minutes'' JNull) (\<lambda>wm.
     bind (get_or d ''location'' JNull) (\<lambda>loc.
     bind (if truthy loc then bind (Location_from loc) (\<lambda>l. Inr (Some l)) else Inr None) (\<lambda>l.
       Inr \<lparr>cond_type = ct, cond_steps_target = st, cond_time_target = tt,
            cond_workout_minutes = wm, cond_location = l\<rparr>)))))))"

text \<open>
  \<open>Rule.from_dict\<close>; \<open>now_iso\<close> is \<open>datetime.now().isoformat()\<close>, the default of
  \<open>created_at\<close>.
\<close>

definition Rule_from_dict :: "string \<Rightarrow> json \<Rightarrow> error + LoadedRule" where
  "Rule_from_dict now_iso d =
     bind (subscript d ''id'') (\<lambda>i.
     bind (subscript d ''blocked_items'') (\<lambda>b.
     bind (subscript d ''condition'') (\<lambda>cj.
     bind (Condition_from_dict cj) (\<lambda>c.
     bind (get_or d ''enabled'' (JBool True)) (\<lambda>e.
     bind (get_or d ''created_at'' (JStr now_iso)) (\<lambda>ca.
       Inr \<lparr>loaded_id = i, loaded_blocked_items = b, loaded_condition = c,
            loaded_enabled = e, loaded_created_at = ca\<rparr>))))))"

text \<open>
  The list comprehension of \<open>load\<close>: the records in order, and the first exception of
  \<open>Rule.from_dict\<close> leaves the comprehension.
\<close>

fun from_dicts :: "string \<Rightarrow> json list \<Rightarrow> error + LoadedRule list" where
  "from_dicts now_iso [] = Inr []"
| "from_dicts now_iso (r # rs) =
     bind (Rule_from_dict now_iso r) (\<lambda>x.
     bind (from_dicts now_iso rs) (\<lambda>xs. Inr (x # xs)))"

text \<open>What \<open>for r in v\<close> iterates over: a list's elements, a string's characters, a
  dict's keys; any other value is not iterable.\<close>

fun iterate :: "json \<Rightarrow> error + json list" where
  "iterate (JArr xs) = Inr xs"
| "iterate (JStr s) = Inr (map (\<lambda>c. JStr [c]) s)"
| "iterate (JObj d) = Inr (map (\<lambda>kv. JStr (fst kv)) d)"
| "iterate j = Inl TypeError"

text \<open>
  \<open>RuleStore.load\<close>: only \<open>FileNotFoundError\<close> is caught, and gives the empty list. The
  result is the new value of \<open>self.rules\<close>; on \<open>Inl\<close> the exception leaves \<open>load\<close> and
  \<open>self.rules\<close> is not assigned.
\<close>

definition load :: "string \<Rightarrow> rule_file \<Rightarrow> error + LoadedRule list" where
  "load now_iso f =
     (case f of
        NoFile \<Rightarrow> Inr []
      | Unparseable \<Rightarrow> Inl JSONDecodeError
      | Doc data \<Rightarrow>
          bind (get_or data ''rules'' (JArr [])) (\<lambda>rs.
          bind (iterate rs) (\<lambda>xs. from_dicts now_iso xs)))"

section \<open>The Windows blocking engine (windows/blocker.py)\<close>

definition SITE_DOMAINS :: "(string \<times> string list) list" where
  "SITE_DOMAINS =
     [(''netflix'', [''netflix.com'', ''nflxvideo.net'', ''nflximg.net'', ''nflxso.net'']),
      (''youtube'', [''youtube.com'', ''youtu.be'', ''googlevideo.com'', ''ytimg.com'']),
      (''tiktok'', [''tiktok.com'', ''tiktokcdn.com'', ''tiktokv.com'']),
      (''reddit'', [''reddit.com'', ''redd.it'', ''redditmedia.com'']),
      (''twitter'', [''twitter.com'', ''x.com'', ''twimg.com'']),
      (''instagram'', [''instagram.com'', ''cdninstagram.com'']),
      (''facebook'', [''facebook.com'', ''fb.com'', ''fbcdn.net'']),
      (''twitch'', [''twitch.tv'', ''twitchcdn.net'']),
      (''disney+'', [''disneyplus.com'', ''disney-plus.net'']),
      (''hulu'', [''hulu.com'', ''huluim.com'']),
      (''hbo'', [''hbomax.com'', ''max.com'']),
      (''amazon'', [''primevideo.com'', ''aiv-cdn.net''])]"

definition MARKER_START :: string where
  "MARKER_START = ''# === TOTALCONTROL START ===''"

definition MARKER_END :: string where
  "MARKER_END = ''# === TOTALCONTROL END ===''"

text \<open>
  The blocker's own state is the set \<open>self.blocked_items\<close> (named \<open>blocker_items\<close> here,
  the rule's field has the name already). The hosts file is the world it acts on: its
  text as \<open>f.read()\<close> returns it (\<open>None\<close> when opening it for reading raises), whether
  opening it for writing succeeds, and two counters of what was done to the operating
  system: completed writes of the file and runs of \<open>ipconfig /flushdns\<close>.
\<close>

record WindowsBlocker =
  blocker_items :: "string set"

record hosts_world =
  hosts_text :: "string option"
  writable :: bool
  writes :: nat
  flushes :: nat

definition get_domains_for_item :: "string \<Rightarrow> string list" where
  "get_domains_for_item item =
     (let item_lower = lower item
      in case map_of SITE_DOMAINS item_lower of
           Some domains \<Rightarrow> domains
         | None \<Rightarrow>
             if CHR ''.'' \<in> set item then [item_lower]
             else [item_lower @ ''.com''])"

text \<open>
  \<open>find_first pat s\<close> splits \<open>s\<close> at the first occurrence of \<open>pat\<close>: what is before it
  and what is after it.
\<close>

fun find_first :: "string \<Rightarrow> string \<Rightarrow> (string \<times> string) option" where
  "find_first pat [] = (if pat = [] then Some ([], []) else None)"
| "find_first pat (c # cs) =
     (if starts_with pat (c # cs) then Some ([], drop (length pat) (c # cs))
      else case find_first pat cs of
             None \<Rightarrow> None
           | Some (before, after) \<Rightarrow> Some (c # before, after))"

lemma starts_with_append: "starts_with pat s \<Longrightarrow> s = pat @ drop (length pat) s"
  by (induction pat s rule: starts_with.induct) auto

lemma find_first_split: "find_first pat s = Some (before, after) \<Longrightarrow> s = before @ pat @ after"
proof (induction s arbitrary: before)
  case Nil
  then show ?case by (simp split: if_splits)
next
  case (Cons c cs)
  show ?case
  proof (cases "starts_with pat (c # cs)")
    case True
    with Cons.prems have "before = []" "after = drop (length pat) (c # cs)" by simp_all
    with starts_with_append [OF True] show ?thesis by simp
  next
    case False
    with Cons.prems obtain b where b: "find_first pat cs = Some (b, after)" "before = c # b"
      by (auto split: option.splits)
    from Cons.IH [OF b(1)] b(2) show ?thesis by simp
  qed
qed

text \<open>
  \<open>re.sub(START + ".*?" + END, "", content, flags=re.DOTALL)\<close> with both markers
  escaped: scanning from the left, every stretch from an occurrence of the start marker
  to the first end marker after it is removed, and the scan goes on behind it. A start
  marker with no end marker behind it stays, and so does all that follows.
\<close>

function remove_regions :: "string \<Rightarrow> string" where
  "remove_regions content =
     (case find_first MARKER_START content of
        None \<Rightarrow> content
      | Some (before, rest) \<Rightarrow>
          (case find_first MARKER_END rest of
             None \<Rightarrow> content
           | Some (inside, after) \<Rightarrow> before @ remove_regions after))"
  by pat_completeness auto
termination
proof (relation "measure length", goal_cases)
  case 1
  show ?case by simp
next
  case (2 content x before rest y inside after)
  then have "content = before @ MARKER_START @ rest" "rest = inside @ MARKER_END @ after"
    by (simp_all add: find_first_split)
  then show ?case by (simp add: MARKER_START_def)
qed

declare remove_regions.simps [simp del]

text \<open>\<open>str.strip()\<close>: the white space of Python among the code points below 256.\<close>

definition is_space :: "char \<Rightarrow> bool" where
  "is_space c =
     (let n = (of_char c :: nat)
      in (9 \<le> n \<and> n \<le> 13) \<or> (28 \<le> n \<and> n \<le> 32) \<or> n = 133 \<or> n = 160)"

definition strip :: "string \<Rightarrow> string" where
  "strip s = rev (dropWhile is_space (rev (dropWhile is_space s)))"

definition NL :: char where
  "NL = CHR 0x0A"

fun join :: "string \<Rightarrow> string list \<Rightarrow> string" where
  "join sep [] = []"
| "join sep [x] = x"
| "join sep (x # y # ys) = x @ sep @ join sep (y # ys)"

text \<open>
  The lines of the managed region. \<open>for item in self.blocked_items\<close> runs over a set,
  in an order Python does not fix: \<open>order\<close> is that order, a parameter of the model.
\<close>

definition block_lines :: "(string set \<Rightarrow> string list) \<Rightarrow> string set \<Rightarrow> string list" where
  "block_lines order items =
     [MARKER_START]
     @ concat (map (\<lambda>item.
         concat (map (\<lambda>domain. [''127.0.0.1 '' @ domain, ''127.0.0.1 www.'' @ domain])
                     (get_domains_for_item item)))
         (order items))
     @ [MARKER_END]"

text \<open>The text \<open>_apply_hosts_block\<close> writes when it has read \<open>content\<close>.\<close>

definition new_hosts_text :: "(string set \<Rightarrow> string list) \<Rightarrow> string set \<Rightarrow> string \<Rightarrow> string" where
  "new_hosts_text order items content =
     (let content1 = strip (remove_regions content)
      in if items \<noteq> {}
         then content1 @ [NL, NL] @ join [NL] (block_lines order items)
         else content1)"

text \<open>
  \<open>_apply_hosts_block\<close>: every exception is caught (and printed), so a hosts file that
  cannot be read or cannot be opened for writing is left as it is, and nothing is
  flushed.
\<close>

definition apply_hosts_block ::
  "(string set \<Rightarrow> string list) \<Rightarrow> WindowsBlocker \<Rightarrow> hosts_world \<Rightarrow> hosts_world" where
  "apply_hosts_block order self w =
     (case hosts_text w of
        None \<Rightarrow> w
      | Some content \<Rightarrow>
          if writable w
          then w\<lparr>hosts_text := Some (new_hosts_text order (blocker_items self) content),
                 writes := writes w + 1, flushes := flushes w + 1\<rparr>
          else w)"

definition update_blocked ::
  "(string set \<Rightarrow> string list) \<Rightarrow> string list \<Rightarrow> WindowsBlocker \<times> hosts_world
     \<Rightarrow> WindowsBlocker \<times> hosts_world" where
  "update_blocked order items st =
     (let self = fst st; w = snd st;
          new_blocked = set (map lower items)
      in if new_blocked \<noteq> blocker_items self
         then (let self' = self\<lparr>blocker_items := new_blocked\<rparr>
               in (self', apply_hosts_block order self' w))
         else (self, w))"

definition clear_blocks ::
  "(string set \<Rightarrow> string list) \<Rightarrow> WindowsBlocker \<times> hosts_world \<Rightarrow> WindowsBlocker \<times> hosts_world" where
  "clear_blocks order st =
     (let self' = (fst st)\<lparr>blocker_items := {}\<rparr>
      in (self', apply_hosts_block order self' (snd st)))"

definition new_blocker :: WindowsBlocker where
  "new_blocker = \<lparr>blocker_items = {}\<rparr>"

section \<open>Properties of the condition evaluator\<close>

text \<open>The distance test without the square root, for evaluation.\<close>

lemma sqrt_scaled_le_iff:
  fixes a r k :: real
  assumes "0 \<le> a" "0 \<le> k"
  shows "sqrt a * k \<le> r \<longleftrightarrow> 0 \<le> r \<and> a * k\<^sup>2 \<le> r\<^sup>2"
proof (cases "0 \<le> r")
  case True
  have nn: "0 \<le> sqrt a * k" using assms by simp
  have sq: "(sqrt a * k)\<^sup>2 = a * k\<^sup>2"
    using assms by (simp add: power_mult_distrib)
  have "sqrt a * k \<le> r \<longleftrightarrow> \<bar>sqrt a * k\<bar> \<le> \<bar>r\<bar>"
    using nn True by linarith
  also have "\<dots> \<longleftrightarrow> (sqrt a * k)\<^sup>2 \<le> r\<^sup>2"
    by (rule abs_le_square_iff)
  finally have "sqrt a * k \<le> r \<longleftrightarrow> a * k\<^sup>2 \<le> r\<^sup>2"
    unfolding sq .
  with True show ?thesis by blast
next
  case False
  have "0 \<le> sqrt a * k" using assms by simp
  then show ?thesis using False by linarith
qed

lemma within_radius_code [code]:
  "within_radius cur loc =
     (0 \<le> radius_meters loc \<and>
      ((latitude cur - latitude loc)\<^sup>2 + (longitude cur - longitude loc)\<^sup>2) * 111000\<^sup>2
        \<le> (real_of_int (radius_meters loc))\<^sup>2)"
  unfolding within_radius_def Let_def
  by (subst sqrt_scaled_le_iff) simp_all

definition no_progress :: Progress where
  "no_progress = \<lparr>steps_today = 0, workout_minutes_today = 0, current_location = None\<rparr>"

definition until_17 :: Condition where
  "until_17 = \<lparr>type = TIME, steps_target = None, time_target = Some ''17:00'',
                workout_minutes = None, location = None\<rparr>"

definition steps_10000 :: Condition where
  "steps_10000 = \<lparr>type = STEPS, steps_target = Some 10000, time_target = None,
                   workout_minutes = None, location = None\<rparr>"

lemma strptime_17: "strptime_HM (Some ''17:00'') = Inr 61200000000"
  by (simp add: strptime_HM_def is_digit_def digit_val_def)

lemma str_int_30: "str_int 30 = ''30''"
  by code_simp

lemma str_int_60: "str_int 60 = ''60''"
  by code_simp

lemma check_condition_not_time:
  "type c \<noteq> TIME \<Longrightarrow> check_condition clk p c = (fst (check_condition clk' p c), clk)"
  by (cases "type c") (simp_all add: check_condition_def Let_def split: option.splits)

lemma check_condition_time:
  assumes "clk 0 = clk' 0" "clk 1 = clk' 1" "clk 2 = clk' 2"
  shows "fst (check_condition clk p c) = fst (check_condition clk' p c)"
proof (cases "type c = TIME")
  case True
  have "now clk = now clk'" "now (tick clk) = now (tick clk')"
    "now (tick (tick clk)) = now (tick (tick clk'))"
    using assms by (simp_all add: now_def tick_def numeral_2_eq_2)
  then show ?thesis
    using True by (simp add: check_condition_def Let_def split: sum.splits)
next
  case False
  then show ?thesis using check_condition_not_time [of c clk p clk'] by simp
qed

text \<open>
  C1, as the code has it. \<open>check_condition\<close> changes nothing, but it is a function of
  more than its two arguments: the \<open>time\<close> branch reads the wall clock. For the five
  other kinds the result is the same at every clock and no reading is consumed; for
  \<open>time\<close> the result is a function of the condition and of the three readings the call
  can take, so two calls that read the same times return the same pair.
\<close>

theorem check_condition_deterministic:
  "(type c \<noteq> TIME \<longrightarrow> check_condition clk p c = (fst (check_condition clk' p c), clk))
   \<and> (clk 0 = clk' 0 \<and> clk 1 = clk' 1 \<and> clk 2 = clk' 2
        \<longrightarrow> fst (check_condition clk p c) = fst (check_condition clk' p c))"
proof (intro conjI impI)
  assume "type c \<noteq> TIME"
  then show "check_condition clk p c = (fst (check_condition clk' p c), clk)"
    by (rule check_condition_not_time)
next
  assume "clk 0 = clk' 0 \<and> clk 1 = clk' 1 \<and> clk 2 = clk' 2"
  then show "fst (check_condition clk p c) = fst (check_condition clk' p c)"
    by (intro check_condition_time) simp_all
qed

theorem check_condition_deterministic_witness:
  "type steps_10000 \<noteq> TIME
   \<and> check_condition (\<lambda>n. at_time 0 16 30 0) no_progress steps_10000
       = (fst (check_condition (\<lambda>n. at_time 0 17 1 0) no_progress steps_10000),
          \<lambda>n. at_time 0 16 30 0)
   \<and> fst (check_condition (\<lambda>n. if n < 3 then at_time 0 16 30 0 else at_time 0 20 0 0)
              no_progress until_17)
       = fst (check_condition (\<lambda>n. at_time 0 16 30 0) no_progress until_17)"
  using check_condition_deterministic
          [of steps_10000 "\<lambda>n. at_time 0 16 30 0" no_progress "\<lambda>n. at_time 0 17 1 0"]
        check_condition_deterministic
          [of until_17 "\<lambda>n. if n < 3 then at_time 0 16 30 0 else at_time 0 20 0 0"
              no_progress "\<lambda>n. at_time 0 16 30 0"]
  by (simp add: steps_10000_def until_17_def)

text \<open>
  C1 as stated fails: the same \<open>time\<close> condition and the same progress give an unmet
  verdict at 16:30 and a met one at 17:01.
\<close>

theorem check_condition_reads_clock:
  "fst (check_condition (\<lambda>n. at_time 0 16 30 0) no_progress until_17)
     = Inr (False, ''30m left'')
   \<and> fst (check_condition (\<lambda>n. at_time 0 17 1 0) no_progress until_17)
     = Inr (True, ''Time reached'')"
  unfolding check_condition_def until_17_def
  apply (simp add: strptime_17)
  apply (simp add: now_def tick_def at_time_def)
  apply (simp add: trunc_div_def str_int_30)
  done

text \<open>
  C2: a \<open>steps\<close> condition with target zero. The comparison is made, then the percentage
  divides by the target: the call raises \<open>ZeroDivisionError\<close> whatever the progress is.
\<close>

theorem zero_steps_target_raises:
  "fst (check_condition clk progress
          \<lparr>type = STEPS, steps_target = Some 0, time_target = tt,
            workout_minutes = wm, location = loc\<rparr>) = Inl ZeroDivisionError"
  by (simp add: check_condition_def)

text \<open>
  C3: target 17:00 read at 16:00:00, sixty minutes before. The guard is \<open>mins > 60\<close>, so
  the text is \<open>60m left\<close> and not \<open>1h 0m left\<close>.
\<close>

theorem sixty_minutes_left:
  "fst (check_condition (\<lambda>n. at_time 0 16 0 0) no_progress until_17)
     = Inr (False, ''60m left'')"
  unfolding check_condition_def until_17_def
  apply (simp add: strptime_17)
  apply (simp add: now_def tick_def at_time_def)
  apply (simp add: trunc_div_def str_int_60)
  done

end
